theory Spec2Isabelle
  imports Complex_Main "HOL-Library.Word" "HOL-Library.Monad_Syntax"
begin

section \<open>Data model\<close>

text \<open>
  The repository holds two programs: the summary pipeline (the \<open>main\<close> package with
  \<open>oplogCh\<close>, \<open>oidCh\<close>, \<open>rawToSummary\<close> and \<open>stats\<close>) and the plain tailer
  \<open>tail/main.go\<close>. Both talk to MongoDB through the mgo driver, which is not part of
  the repository.

  A \<open>bson.M\<close> is a Go \<open>map[string]interface{}\<close>. It is an association list of field
  name and value here, read with \<open>map_of\<close>; the values are the BSON values that the
  two programs build or inspect. A nil map reads like the empty one.
  An \<open>int64\<close> is a \<open>64 word\<close>; a \<open>float64\<close> is a \<open>real\<close> (rounding, infinities and
  NaN are not modelled); a \<open>time.Time\<close> is an \<open>int\<close>.
\<close>

datatype bval =
    ObjectId string
  | BString string
  | BDouble real
  | BInt int
  | BInt64 "64 word"
  | BTimestamp "64 word"
  | BDoc "(string \<times> bval) list"
  | BArray "bval list"

type_synonym M = "(string \<times> bval) list"

record Oplog =
  Timestamp :: "64 word"
  HistoryID :: "64 word"
  MongoVersion :: int
  Operation :: string
  Namespace :: string
  Object :: M
  QueryObject :: M

record Datapoint =
  At_d :: int
  Value :: real

record Raw =
  Key_r :: string
  At_r :: "64 word"
  Values :: "Datapoint list"

record Summary =
  Key :: string
  At :: "64 word"
  Min_s :: real
  Max_s :: real
  P2 :: real
  P9 :: real
  P25 :: real
  P50 :: real
  P75 :: real
  P91 :: real
  P98 :: real

text \<open>Go error values; \<open>ErrNotFound\<close> is the driver's \<open>mgo.ErrNotFound\<close>.\<close>

datatype error = ErrNotFound | ErrOther string

section \<open>Identifier extraction: \<open>oidCh\<close>\<close>

text \<open>
  \<open>oidCh\<close> ranges over its input channel and sends on its output channel. A channel
  is the list of the values sent on it, in order. The body of the loop is \<open>oid_of\<close>:
  two \<open>if\<close> statements one after the other, each sending at most one string.
  \<open>boid.Hex()\<close> is the driver's method; it is the parameter \<open>hex\<close>.
\<close>

definition oid_of :: "(string \<Rightarrow> string) \<Rightarrow> Oplog \<Rightarrow> string list" where
  "oid_of hex o' =
     (if Operation o' = ''i'' then
        (case map_of (Object o') ''_id'' of
           Some (ObjectId boid) \<Rightarrow> [hex boid]
         | _ \<Rightarrow> [])
      else [])
     @
     (if Operation o' = ''u'' then
        (case map_of (QueryObject o') ''_id'' of
           Some (ObjectId boid) \<Rightarrow> [hex boid]
         | _ \<Rightarrow> [])
      else [])"

fun oidCh :: "(string \<Rightarrow> string) \<Rightarrow> Oplog list \<Rightarrow> string list" where
  "oidCh hex [] = []"
| "oidCh hex (o' # rest) = oid_of hex o' @ oidCh hex rest"

section \<open>Summary computation: \<open>rawToSummary\<close>\<close>

text \<open>
  The loop \<open>for i, value := range raw.Values { values[i] = value.Value }\<close>, from
  index \<open>i\<close> on. A write past the end of \<open>values\<close> would panic in Go; it cannot
  happen, since \<open>values\<close> is made with the length of \<open>raw.Values\<close>
  (lemma \<open>copy_values_map\<close>).
\<close>

fun copy_values :: "Datapoint list \<Rightarrow> nat \<Rightarrow> real list \<Rightarrow> real list" where
  "copy_values [] i values = values"
| "copy_values (value # rest) i values = copy_values rest (Suc i) (values[i := Value value])"

text \<open>
  \<open>stat.Quantile\<close> belongs to the gonum library. \<open>rawToSummary\<close> takes it as the
  parameter \<open>Q\<close>, where \<open>Q p x\<close> stands for
  \<open>stat.Quantile(p, stat.Empirical, x, nil)\<close> and \<open>None\<close> for a panic of that call.
  The nine calls run in the order of the source; the first panic ends the function.
  \<open>sort.Float64s\<close> is \<open>sort\<close>.
\<close>

definition rawToSummary :: "(real \<Rightarrow> real list \<Rightarrow> real option) \<Rightarrow> Raw \<Rightarrow> Summary option" where
  "rawToSummary Q raw =
     (let values = replicate (length (Values raw)) 0;
          values = copy_values (Values raw) 0 values;
          values = sort values
      in do {
        mn \<leftarrow> Q 0 values;
        mx \<leftarrow> Q 1 values;
        p2 \<leftarrow> Q (2 / 100) values;
        p9 \<leftarrow> Q (9 / 100) values;
        p25 \<leftarrow> Q (25 / 100) values;
        p50 \<leftarrow> Q (50 / 100) values;
        p75 \<leftarrow> Q (75 / 100) values;
        p91 \<leftarrow> Q (91 / 100) values;
        p98 \<leftarrow> Q (98 / 100) values;
        Some \<lparr>Key = Key_r raw, At = At_r raw, Min_s = mn, Max_s = mx, P2 = p2, P9 = p9,
              P25 = p25, P50 = p50, P75 = p75, P91 = p91, P98 = p98\<rparr>
      })"

text \<open>
  \<open>stat.Quantile\<close> with \<open>stat.Empirical\<close> and no weights, which the repository
  calls and does not contain, as the library describes that kind: the lowest sample
  that is at or above the fraction \<open>p\<close> of the samples. With every weight 1 the
  library walks the sorted samples, counting them, and returns the first one whose
  count has reached \<open>p\<close> times the number of samples; there is no interpolation.
  It panics when \<open>p\<close> is outside 0..1, when the samples are not sorted, and when no
  sample is returned, which is the case of no samples at all. A panic is \<open>None\<close>.
\<close>

fun Empirical :: "real \<Rightarrow> real \<Rightarrow> real list \<Rightarrow> real option" where
  "Empirical fidx cumsum [] = None"
| "Empirical fidx cumsum (xi # rest) =
     (if fidx \<le> cumsum + 1 then Some xi else Empirical fidx (cumsum + 1) rest)"

definition Quantile :: "real \<Rightarrow> real list \<Rightarrow> real option" where
  "Quantile p x =
     (if \<not> (0 \<le> p \<and> p \<le> 1) then None
      else if \<not> sorted x then None
      else Empirical (p * real (length x)) 0 x)"

text \<open>
  Modelled from the spec: the quantile as the spec words it, to set beside the one that
  the program calls. The spec: "the p-th percentile of a sorted sequence of n values is
  located at linear-interpolated rank \<open>p\<cdot>(n\<minus>1)\<close>, interpolating between the two
  bracketing sorted values". The bracketing values are the ones at the floor and at
  the ceiling of the rank; reading an index outside the sequence is \<open>None\<close>.
\<close>

definition Quantile_spec :: "real \<Rightarrow> real list \<Rightarrow> real option" where
  "Quantile_spec p x =
     (let n = int (length x);
          rank = p * of_int (n - 1);
          lo = \<lfloor>rank\<rfloor>;
          hi = \<lceil>rank\<rceil>
      in if 0 \<le> lo \<and> hi < n
         then Some (x ! nat lo + (rank - of_int lo) * (x ! nat hi - x ! nat lo))
         else None)"

section \<open>Queries\<close>

text \<open>
  The query that the pipeline's \<open>main\<close> builds from the latest oplog entry \<open>lo\<close>,
  and the one that \<open>tail/main.go\<close> builds.
\<close>

definition query :: "Oplog \<Rightarrow> M" where
  "query lo =
     [(''ts'', BDoc [(''$gt'', BTimestamp (Timestamp lo))]),
      (''ns'', BString ''metrics.raw''),
      (''op'', BDoc [(''$in'', BArray [BString ''i'', BString ''u''])])]"

definition tail_query :: "Oplog \<Rightarrow> M" where
  "tail_query lo = [(''ts'', BDoc [(''$gte'', BTimestamp (Timestamp lo))])]"

text \<open>
  The documents behind the structs, field names from the \<open>bson\<close> tags.
\<close>

definition Oplog_doc :: "Oplog \<Rightarrow> M" where
  "Oplog_doc o' =
     [(''ts'', BTimestamp (Timestamp o')),
      (''h'', BInt64 (HistoryID o')),
      (''v'', BInt (MongoVersion o')),
      (''op'', BString (Operation o')),
      (''ns'', BString (Namespace o')),
      (''o'', BDoc (Object o')),
      (''o2'', BDoc (QueryObject o'))]"

definition Datapoint_doc :: "Datapoint \<Rightarrow> M" where
  "Datapoint_doc d = [(''at'', BInt (At_d d)), (''value'', BDouble (Value d))]"

definition Raw_doc :: "Raw \<Rightarrow> M" where
  "Raw_doc raw =
     [(''key'', BString (Key_r raw)),
      (''at'', BInt64 (At_r raw)),
      (''values'', BArray (map (\<lambda>d. BDoc (Datapoint_doc d)) (Values raw)))]"

definition Summary_doc :: "Summary \<Rightarrow> M" where
  "Summary_doc summary =
     [(''key'', BString (Key summary)),
      (''at'', BInt64 (At summary)),
      (''min'', BDouble (Min_s summary)),
      (''max'', BDouble (Max_s summary)),
      (''p2'', BDouble (P2 summary)),
      (''p9'', BDouble (P9 summary)),
      (''p25'', BDouble (P25 summary)),
      (''p50'', BDouble (P50 summary)),
      (''p75'', BDouble (P75 summary)),
      (''p91'', BDouble (P91 summary)),
      (''p98'', BDouble (P98 summary))]"

text \<open>
  Modelled from the spec: the reading of a query document, which is the database
  server's and not in the repository. The spec reads the pipeline's query as
  "position > afterPosition AND namespace == target AND operation kind \<in> {insert,
  update}", and sets "greater than" against "greater-or-equal". So: a plain value asks
  for equality; \<open>$gt\<close> and \<open>$gte\<close> compare values of the same type; \<open>$in\<close> asks
  for membership in an array; a document matches a query when every field of the query
  is present and its condition holds. A timestamp is ordered by its seconds and then
  its ordinal, which is the unsigned order of the 64 bits, the order of \<open>64 word\<close>.
\<close>

fun bless :: "bval \<Rightarrow> bval \<Rightarrow> bool" where
  "bless (BTimestamp a) (BTimestamp b) = (a < b)"
| "bless (BInt64 a) (BInt64 b) = (sint a < sint b)"
| "bless (BInt a) (BInt b) = (a < b)"
| "bless (BDouble a) (BDouble b) = (a < b)"
| "bless _ _ = False"

definition operator :: "string \<Rightarrow> bval \<Rightarrow> bval \<Rightarrow> bool" where
  "operator opr arg v =
     (if opr = ''$gt'' then bless arg v
      else if opr = ''$gte'' then bless arg v \<or> arg = v
      else if opr = ''$in'' then (case arg of BArray xs \<Rightarrow> v \<in> set xs | _ \<Rightarrow> False)
      else False)"

definition is_operators :: "M \<Rightarrow> bool" where
  "is_operators ops = (ops \<noteq> [] \<and> list_all (\<lambda>(k, arg). take 1 k = ''$'') ops)"

fun cond_holds :: "bval \<Rightarrow> bval \<Rightarrow> bool" where
  "cond_holds (BDoc ops) v =
     (if is_operators ops then list_all (\<lambda>(opr, arg). operator opr arg v) ops
      else v = BDoc ops)"
| "cond_holds c v = (v = c)"

definition doc_matches :: "M \<Rightarrow> M \<Rightarrow> bool" where
  "doc_matches q doc =
     list_all (\<lambda>(field, c). case map_of doc field of Some v \<Rightarrow> cond_holds c v | None \<Rightarrow> False) q"

section \<open>The driver\<close>

text \<open>
  The calls into mgo, as a record of functions over the state \<open>'s\<close> of the database:
  \<^item> \<open>Dial\<close>: the error of \<open>mgo.Dial\<close>, if any;
  \<^item> \<open>FindLatest\<close>: \<open>Find(nil).Sort("-$natural").One(&oplog)\<close> on \<open>local.oplog.rs\<close>;
  \<^item> \<open>Tail\<close>: the tailing iterator of a query on \<open>local.oplog.rs\<close>: the entries for
    which \<open>iter.Next\<close> returned true, in order, then \<open>iter.Err()\<close> and
    \<open>iter.Close()\<close>. A run in which \<open>iter.Next\<close> blocks for ever has no such triple
    and is not described;
  \<^item> \<open>Hex\<close>: \<open>ObjectId.Hex\<close>; \<open>ObjectIdHex\<close>: \<open>bson.ObjectIdHex\<close>, \<open>None\<close>
    where it panics;
  \<^item> \<open>FindRaw\<close>: \<open>Find(q).One(&raw)\<close> on \<open>metrics.raw\<close>;
  \<^item> \<open>Upsert\<close>: \<open>Upsert(selector, summary)\<close> on \<open>metrics.summary\<close>, with the
    state it leaves.
\<close>

record 's mgo =
  Dial :: "error option"
  FindLatest :: "'s \<Rightarrow> error + Oplog"
  Tail :: "'s \<Rightarrow> M \<Rightarrow> Oplog list \<times> error option \<times> error option"
  Hex :: "string \<Rightarrow> string"
  ObjectIdHex :: "string \<Rightarrow> string option"
  FindRaw :: "'s \<Rightarrow> M \<Rightarrow> error + Raw"
  Upsert :: "'s \<Rightarrow> M \<Rightarrow> Summary \<Rightarrow> 's \<times> error option"

text \<open>
  The value a Go panic carries: the error of \<open>panic(err)\<close>, or the panic of a library
  call (\<open>bson.ObjectIdHex\<close> on a malformed string, \<open>stat.Quantile\<close>).
\<close>

datatype panic = PanicErr error | PanicObjectIdHex string | PanicQuantile

datatype exit = Returned | Panicked panic

section \<open>The pipeline\<close>

definition latestOplog :: "'s mgo \<Rightarrow> 's \<Rightarrow> error + Oplog" where
  "latestOplog drv sess = FindLatest drv sess"

text \<open>
  \<open>oplogCh\<close> returns the channel \<open>out\<close> and the channel \<open>errc\<close>. The goroutine sends
  every entry of the iterator on \<open>out\<close>, closes it, and then sends one value on
  \<open>errc\<close>: \<open>iter.Err()\<close> when it is not nil, the result of \<open>iter.Close()\<close> otherwise.
\<close>

definition oplogCh :: "'s mgo \<Rightarrow> 's \<Rightarrow> M \<Rightarrow> Oplog list \<times> error option" where
  "oplogCh drv sess q =
     (case Tail drv sess q of
        (out, err, close_err) \<Rightarrow>
          (out, case err of Some e \<Rightarrow> Some e | None \<Rightarrow> close_err))"

text \<open>
  \<open>stats\<close> returns an error or nil (\<open>Inr\<close>), or panics inside a library call
  (\<open>Inl\<close>); the state of the database comes with it. The line printed by
  \<open>fmt.Printf\<close> is left out.
\<close>

definition stats ::
  "'s mgo \<Rightarrow> (real \<Rightarrow> real list \<Rightarrow> real option) \<Rightarrow> 's \<Rightarrow> string \<Rightarrow> 's \<times> (panic + error option)" where
  "stats drv Q sess oid =
     (case ObjectIdHex drv oid of
        None \<Rightarrow> (sess, Inl (PanicObjectIdHex oid))
      | Some boid \<Rightarrow>
          (case FindRaw drv sess [(''_id'', ObjectId boid)] of
             Inl err \<Rightarrow> (sess, Inr (Some err))
           | Inr raw \<Rightarrow>
               (case rawToSummary Q raw of
                  None \<Rightarrow> (sess, Inl PanicQuantile)
                | Some summary \<Rightarrow>
                    (let selector = [(''key'', BString (Key summary)), (''at'', BInt64 (At summary))]
                     in case Upsert drv sess selector summary of
                          (sess', err) \<Rightarrow> (sess', Inr err)))))"

text \<open>
  The loop \<open>for oid := range oidch\<close> of \<open>main\<close>: one \<open>stats\<close> per identifier, in
  order; an error of \<open>stats\<close> is a \<open>panic(err)\<close>.
\<close>

fun consume ::
  "'s mgo \<Rightarrow> (real \<Rightarrow> real list \<Rightarrow> real option) \<Rightarrow> 's \<Rightarrow> string list \<Rightarrow> 's \<times> panic option" where
  "consume drv Q sess [] = (sess, None)"
| "consume drv Q sess (oid # rest) =
     (case stats drv Q sess oid of
        (sess', Inl p) \<Rightarrow> (sess', Some p)
      | (sess', Inr (Some err)) \<Rightarrow> (sess', Some (PanicErr err))
      | (sess', Inr None) \<Rightarrow> consume drv Q sess' rest)"

text \<open>
  \<open>main\<close> of the pipeline. The three goroutines are joined by unbuffered channels and
  only \<open>main\<close> writes to the database, so a run is the sequence of \<open>stats\<close> calls
  on the identifiers in stream order.
\<close>

definition main :: "'s mgo \<Rightarrow> (real \<Rightarrow> real list \<Rightarrow> real option) \<Rightarrow> 's \<Rightarrow> 's \<times> exit" where
  "main drv Q sess =
     (case Dial drv of
        Some err \<Rightarrow> (sess, Panicked (PanicErr err))
      | None \<Rightarrow>
          (case latestOplog drv sess of
             Inl err \<Rightarrow> (sess, Panicked (PanicErr err))
           | Inr lo \<Rightarrow>
               (case oplogCh drv sess (query lo) of
                  (och, errCh) \<Rightarrow>
                    (case consume drv Q sess (oidCh (Hex drv) och) of
                       (sess', Some p) \<Rightarrow> (sess', Panicked p)
                     | (sess', None) \<Rightarrow>
                         (case errCh of
                            Some err \<Rightarrow> (sess', Panicked (PanicErr err))
                          | None \<Rightarrow> (sess', Returned))))))"

text \<open>
  \<open>main\<close> of \<open>tail/main.go\<close>: it prints every entry of the iterator; the result is
  the list of the entries printed and the way the program ends.
\<close>

definition tail_main :: "'s mgo \<Rightarrow> 's \<Rightarrow> Oplog list \<times> exit" where
  "tail_main drv sess =
     (case Dial drv of
        Some err \<Rightarrow> ([], Panicked (PanicErr err))
      | None \<Rightarrow>
          (case latestOplog drv sess of
             Inl err \<Rightarrow> ([], Panicked (PanicErr err))
           | Inr lo \<Rightarrow>
               (case Tail drv sess (tail_query lo) of
                  (printed, err, close_err) \<Rightarrow>
                    (case err of
                       Some e \<Rightarrow> (printed, Panicked (PanicErr e))
                     | None \<Rightarrow>
                         (case close_err of
                            Some e \<Rightarrow> (printed, Panicked (PanicErr e))
                          | None \<Rightarrow> (printed, Returned))))))"

section \<open>A database in memory\<close>

text \<open>
  An instance of the driver, to run the programs on: the collection \<open>metrics.raw\<close> as
  a list of identifier and document, \<open>metrics.summary\<close> as a list of documents, the
  oplog as the entries \<open>seen\<close> at startup followed by the entries that come \<open>later\<close>,
  until the iterator ends with \<open>broken\<close>. Identifiers print as themselves.
  An upsert on a selector for which \<open>faulty\<close> gives an error fails with it.
\<close>

record Db =
  raw_c :: "(string \<times> Raw) list"
  summary_c :: "Summary list"

text \<open>
  Modelled from the spec: the upsert of the summary store, which is the database's and
  not in the repository. The spec: "if a summary with that key exists, replace it
  entirely; otherwise insert"; a recomputation "either fully replaces the prior summary
  for its key or fails without effect".
\<close>

fun upsert_list :: "M \<Rightarrow> Summary \<Rightarrow> Summary list \<Rightarrow> Summary list" where
  "upsert_list selector summary [] = [summary]"
| "upsert_list selector summary (d # ds) =
     (if doc_matches selector (Summary_doc d) then summary # ds
      else d # upsert_list selector summary ds)"

definition mem_FindRaw :: "Db \<Rightarrow> M \<Rightarrow> error + Raw" where
  "mem_FindRaw sess q =
     (case filter (\<lambda>(boid, raw). doc_matches q ((''_id'', ObjectId boid) # Raw_doc raw)) (raw_c sess) of
        [] \<Rightarrow> Inl ErrNotFound
      | (boid, raw) # rest \<Rightarrow> Inr raw)"

definition mem_Upsert :: "(M \<Rightarrow> error option) \<Rightarrow> Db \<Rightarrow> M \<Rightarrow> Summary \<Rightarrow> Db \<times> error option" where
  "mem_Upsert faulty sess selector summary =
     (case faulty selector of
        Some err \<Rightarrow> (sess, Some err)
      | None \<Rightarrow> (sess\<lparr>summary_c := upsert_list selector summary (summary_c sess)\<rparr>, None))"

definition mem :: "Oplog list \<Rightarrow> Oplog list \<Rightarrow> error option \<Rightarrow> (M \<Rightarrow> error option) \<Rightarrow> Db mgo" where
  "mem seen later broken faulty =
     \<lparr>Dial = None,
      FindLatest = (\<lambda>sess. if seen = [] then Inl ErrNotFound else Inr (last seen)),
      Tail = (\<lambda>sess q. (filter (\<lambda>o'. doc_matches q (Oplog_doc o')) (seen @ later), broken, None)),
      Hex = (\<lambda>boid. boid),
      ObjectIdHex = Some,
      FindRaw = mem_FindRaw,
      Upsert = mem_Upsert faulty\<rparr>"

section \<open>\<open>rawToSummary\<close> on a heap\<close>

text \<open>
  To say what \<open>rawToSummary\<close> writes, the slices are put on a heap of arrays: an array
  of \<open>Datapoint\<close> or of \<open>float64\<close> lives at an address, and a slice is the address of
  its array (a nil slice is an address without an array and has length 0). The struct
  \<open>Raw\<close> itself is passed by value. \<open>make\<close> takes the next free address.
\<close>

record Heap =
  datapoints :: "nat \<rightharpoonup> Datapoint list"
  floats :: "nat \<rightharpoonup> real list"
  free :: nat

record Raw_h =
  Key_h :: string
  At_h :: "64 word"
  Values_h :: nat

definition read_datapoints :: "Heap \<Rightarrow> nat \<Rightarrow> Datapoint list" where
  "read_datapoints h a = (case datapoints h a of Some ds \<Rightarrow> ds | None \<Rightarrow> [])"

definition read_floats :: "Heap \<Rightarrow> nat \<Rightarrow> real list" where
  "read_floats h a = (case floats h a of Some vs \<Rightarrow> vs | None \<Rightarrow> [])"

definition Raw_of :: "Heap \<Rightarrow> Raw_h \<Rightarrow> Raw" where
  "Raw_of h raw = \<lparr>Key_r = Key_h raw, At_r = At_h raw, Values = read_datapoints h (Values_h raw)\<rparr>"

definition make_floats :: "nat \<Rightarrow> Heap \<Rightarrow> nat \<times> Heap" where
  "make_floats n h = (free h, h\<lparr>floats := (floats h)(free h \<mapsto> replicate n 0), free := Suc (free h)\<rparr>)"

fun copy_values_h :: "Datapoint list \<Rightarrow> nat \<Rightarrow> nat \<Rightarrow> Heap \<Rightarrow> Heap" where
  "copy_values_h [] i values h = h"
| "copy_values_h (value # rest) i values h =
     copy_values_h rest (Suc i) values
       (h\<lparr>floats := (floats h)(values \<mapsto> (read_floats h values)[i := Value value])\<rparr>)"

definition sort_Float64s :: "nat \<Rightarrow> Heap \<Rightarrow> Heap" where
  "sort_Float64s values h = h\<lparr>floats := (floats h)(values \<mapsto> sort (read_floats h values))\<rparr>"

definition rawToSummary_h ::
  "(real \<Rightarrow> real list \<Rightarrow> real option) \<Rightarrow> Heap \<Rightarrow> Raw_h \<Rightarrow> Heap \<times> Summary option" where
  "rawToSummary_h Q h raw =
     (case make_floats (length (read_datapoints h (Values_h raw))) h of
        (values, h1) \<Rightarrow>
          (let h2 = copy_values_h (read_datapoints h1 (Values_h raw)) 0 values h1;
               h3 = sort_Float64s values h2
           in (h3, do {
                 mn \<leftarrow> Q 0 (read_floats h3 values);
                 mx \<leftarrow> Q 1 (read_floats h3 values);
                 p2 \<leftarrow> Q (2 / 100) (read_floats h3 values);
                 p9 \<leftarrow> Q (9 / 100) (read_floats h3 values);
                 p25 \<leftarrow> Q (25 / 100) (read_floats h3 values);
                 p50 \<leftarrow> Q (50 / 100) (read_floats h3 values);
                 p75 \<leftarrow> Q (75 / 100) (read_floats h3 values);
                 p91 \<leftarrow> Q (91 / 100) (read_floats h3 values);
                 p98 \<leftarrow> Q (98 / 100) (read_floats h3 values);
                 Some \<lparr>Key = Key_h raw, At = At_h raw, Min_s = mn, Max_s = mx, P2 = p2, P9 = p9,
                       P25 = p25, P50 = p50, P75 = p75, P91 = p91, P98 = p98\<rparr>
               })))"

section \<open>Example data\<close>

text \<open>
  Oplog entries used to run the definitions: a delete in another namespace; the insert
  and the update of the spec's examples, whose \<open>_id\<close> is the string \<open>"abc"\<close>; an
  insert without \<open>_id\<close>.
\<close>

definition entry0 :: Oplog where
  "entry0 = \<lparr>Timestamp = 7, HistoryID = 1, MongoVersion = 2, Operation = ''d'',
     Namespace = ''test.other'', Object = [], QueryObject = []\<rparr>"

definition insert_abc :: Oplog where
  "insert_abc = \<lparr>Timestamp = 8, HistoryID = 1, MongoVersion = 2, Operation = ''i'',
     Namespace = ''metrics.raw'',
     Object = [(''_id'', BString ''abc''), (''value'', BInt 5)], QueryObject = []\<rparr>"

definition update_abc :: Oplog where
  "update_abc = \<lparr>Timestamp = 9, HistoryID = 1, MongoVersion = 2, Operation = ''u'',
     Namespace = ''metrics.raw'',
     Object = [(''$set'', BDoc [(''value'', BInt 7)])],
     QueryObject = [(''_id'', BString ''abc'')]\<rparr>"

definition insert_no_id :: Oplog where
  "insert_no_id = \<lparr>Timestamp = 10, HistoryID = 1, MongoVersion = 2, Operation = ''i'',
     Namespace = ''metrics.raw'', Object = [(''value'', BInt 5)], QueryObject = []\<rparr>"

text \<open>The series of the spec's example: the observations 1, 2, ..., 10.\<close>

definition raw10 :: Raw where
  "raw10 = \<lparr>Key_r = ''cpu'', At_r = 60,
     Values = map (\<lambda>v. \<lparr>At_d = 61, Value = v\<rparr>) [1, 2, 3, 4, 5, 6, 7, 8, 9, 10]\<rparr>"

definition db0 :: Db where
  "db0 = \<lparr>raw_c = [], summary_c = []\<rparr>"

text \<open>
  An insert whose \<open>_id\<close> is an \<open>ObjectId\<close>; a raw series with one observation, the
  summary it has, and a database that stores the series under that identifier.
\<close>

definition insert_oid :: Oplog where
  "insert_oid = \<lparr>Timestamp = 11, HistoryID = 1, MongoVersion = 2, Operation = ''i'',
     Namespace = ''metrics.raw'', Object = [(''_id'', ObjectId ''abc'')], QueryObject = []\<rparr>"

definition raw1 :: Raw where
  "raw1 = \<lparr>Key_r = ''cpu'', At_r = 60, Values = [\<lparr>At_d = 61, Value = 3\<rparr>]\<rparr>"

definition summary1 :: Summary where
  "summary1 = \<lparr>Key = ''cpu'', At = 60, Min_s = 3, Max_s = 3, P2 = 3, P9 = 3, P25 = 3, P50 = 3,
     P75 = 3, P91 = 3, P98 = 3\<rparr>"

definition db1 :: Db where
  "db1 = \<lparr>raw_c = [(''abc'', raw1)], summary_c = []\<rparr>"

text \<open>
  A heap with one array of two observations, out of order, and one array of floats
  that belongs to somebody else; a \<open>Raw\<close> whose \<open>Values\<close> is the first.
\<close>

definition heap0 :: Heap where
  "heap0 = \<lparr>datapoints = [0 \<mapsto> [\<lparr>At_d = 61, Value = 3\<rparr>, \<lparr>At_d = 62, Value = 1\<rparr>]],
     floats = [0 \<mapsto> [9, 8]], free = 1\<rparr>"

definition raw_h0 :: Raw_h where
  "raw_h0 = \<lparr>Key_h = ''cpu'', At_h = 60, Values_h = 0\<rparr>"

section \<open>Properties of \<open>rawToSummary\<close>\<close>

lemma copy_values_gen:
  "length values = i + length ds \<Longrightarrow> copy_values ds i values = take i values @ map Value ds"
proof (induction ds arbitrary: i "values")
  case Nil
  then show ?case by simp
next
  case (Cons d ds)
  have "copy_values (d # ds) i values = copy_values ds (Suc i) (values[i := Value d])"
    by simp
  also have "\<dots> = take (Suc i) (values[i := Value d]) @ map Value ds"
    using Cons.prems by (intro Cons.IH) simp
  also have "take (Suc i) (values[i := Value d]) = take i values @ [Value d]"
    using Cons.prems by (simp add: take_Suc_conv_app_nth)
  finally show ?case by simp
qed

lemma copy_values_map:
  "copy_values ds 0 (replicate (length ds) 0) = map Value ds"
  by (simp add: copy_values_gen)

lemma rawToSummary_sorted_values:
  "rawToSummary Q raw =
     (let values = sort (map Value (Values raw))
      in do {
        mn \<leftarrow> Q 0 values;
        mx \<leftarrow> Q 1 values;
        p2 \<leftarrow> Q (2 / 100) values;
        p9 \<leftarrow> Q (9 / 100) values;
        p25 \<leftarrow> Q (25 / 100) values;
        p50 \<leftarrow> Q (50 / 100) values;
        p75 \<leftarrow> Q (75 / 100) values;
        p91 \<leftarrow> Q (91 / 100) values;
        p98 \<leftarrow> Q (98 / 100) values;
        Some \<lparr>Key = Key_r raw, At = At_r raw, Min_s = mn, Max_s = mx, P2 = p2, P9 = p9,
              P25 = p25, P50 = p50, P75 = p75, P91 = p91, P98 = p98\<rparr>
      })"
  by (simp add: rawToSummary_def copy_values_map)

lemma Quantile_Nil: "Quantile p [] = None"
  by (simp add: Quantile_def)

text \<open>
  The walk from count \<open>k\<close> on: it stops at the first sample whose count reaches
  \<open>fidx\<close>, which is the sample number \<open>\<lceil>fidx\<rceil>\<close>, or the next one when that number
  is already passed.
\<close>

lemma Empirical_index:
  "xs \<noteq> [] \<Longrightarrow> fidx \<le> real (k + length xs) \<Longrightarrow>
   Empirical fidx (real k) xs = Some (xs ! (nat \<lceil>fidx\<rceil> - Suc k))"
proof (induction xs arbitrary: k)
  case Nil
  then show ?case by simp
next
  case (Cons x xs)
  show ?case
  proof (cases "fidx \<le> real k + 1")
    case True
    then have "fidx \<le> of_int (int k + 1)"
      by (simp only: of_int_add of_int_of_nat_eq of_int_1)
    then have "\<lceil>fidx\<rceil> \<le> int k + 1" by (rule ceiling_le)
    then have z: "nat \<lceil>fidx\<rceil> - Suc k = 0" by linarith
    from True have "Empirical fidx (real k) (x # xs) = Some x" by simp
    then show ?thesis by (simp only: z nth_Cons_0)
  next
    case False
    then have gt: "real (Suc k) < fidx" by simp
    with Cons.prems(2) have ne: "xs \<noteq> []" by auto
    have le: "fidx \<le> real (Suc k + length xs)" using Cons.prems(2) by simp
    have "int (Suc k) < \<lceil>fidx\<rceil>" using gt by (simp add: less_ceiling_iff)
    then have idx: "nat \<lceil>fidx\<rceil> - Suc k = Suc (nat \<lceil>fidx\<rceil> - Suc (Suc k))" by linarith
    have "Empirical fidx (real k) (x # xs) = Empirical fidx (real (Suc k)) xs"
      using False by (simp add: add.commute)
    also have "\<dots> = Some (xs ! (nat \<lceil>fidx\<rceil> - Suc (Suc k)))"
      by (rule Cons.IH [OF ne le])
    finally show ?thesis by (simp add: idx)
  qed
qed

lemma Quantile_rank:
  assumes "0 \<le> p" "p \<le> 1" "sorted x" "x \<noteq> []"
  shows "Quantile p x = Some (x ! (nat \<lceil>p * real (length x)\<rceil> - 1))"
proof -
  have "p * real (length x) \<le> real (0 + length x)"
    using mult_right_mono [OF assms(2), of "real (length x)"] by simp
  from Empirical_index [OF assms(4) this] show ?thesis
    using assms(1-3) by (simp add: Quantile_def)
qed

lemma rawToSummary_rank:
  assumes "Values raw \<noteq> []"
  shows "rawToSummary Quantile raw =
           (let vs = sort (map Value (Values raw));
                rank = (\<lambda>p. vs ! (nat \<lceil>p * real (length vs)\<rceil> - 1))
            in Some \<lparr>Key = Key_r raw, At = At_r raw, Min_s = vs ! 0, Max_s = vs ! (length vs - 1),
                     P2 = rank (2 / 100), P9 = rank (9 / 100), P25 = rank (25 / 100),
                     P50 = rank (50 / 100), P75 = rank (75 / 100), P91 = rank (91 / 100),
                     P98 = rank (98 / 100)\<rparr>)"
proof -
  define vs where "vs = sort (map Value (Values raw))"
  have "length vs = length (Values raw)" by (simp add: vs_def)
  then have ne: "vs \<noteq> []" using assms by auto
  have so: "sorted vs" by (simp add: vs_def)
  have q: "Quantile p vs = Some (vs ! (nat \<lceil>p * real (length vs)\<rceil> - 1))"
    if "0 \<le> p" "p \<le> 1" for p
    using that so ne by (rule Quantile_rank)
  have q0: "Quantile 0 vs = Some (vs ! 0)" using q [of 0] by simp
  have q1: "Quantile 1 vs = Some (vs ! (length vs - 1))" using q [of 1] by simp
  have qs: "Quantile (2 / 100) vs = Some (vs ! (nat \<lceil>2 / 100 * real (length vs)\<rceil> - 1))"
    "Quantile (9 / 100) vs = Some (vs ! (nat \<lceil>9 / 100 * real (length vs)\<rceil> - 1))"
    "Quantile (25 / 100) vs = Some (vs ! (nat \<lceil>25 / 100 * real (length vs)\<rceil> - 1))"
    "Quantile (50 / 100) vs = Some (vs ! (nat \<lceil>50 / 100 * real (length vs)\<rceil> - 1))"
    "Quantile (75 / 100) vs = Some (vs ! (nat \<lceil>75 / 100 * real (length vs)\<rceil> - 1))"
    "Quantile (91 / 100) vs = Some (vs ! (nat \<lceil>91 / 100 * real (length vs)\<rceil> - 1))"
    "Quantile (98 / 100) vs = Some (vs ! (nat \<lceil>98 / 100 * real (length vs)\<rceil> - 1))"
    by (rule q; simp)+
  show ?thesis
    unfolding rawToSummary_sorted_values vs_def [symmetric] Let_def
    by (simp only: q0 q1 qs bind.bind_lunit)
qed

text \<open>
  C1 as stated fails. For the observations 1, 2, ..., 10 the program's 50th percentile
  is 5, not 5.5: the quantile that the program calls does not interpolate. The rule of
  the claim, rank 0.5 * 9 = 4.5 between the values 5 and 6, gives 5.5; the program's
  gives the fifth value, the first whose count reaches 0.5 * 10 = 5.
\<close>

theorem interpolated_median_counterexample:
  "map_option P50 (rawToSummary Quantile raw10) = Some 5 \<and>
   map_option P50 (rawToSummary Quantile raw10) \<noteq> Some 5.5 \<and>
   Quantile (50 / 100) [1, 2, 3, 4, 5, 6, 7, 8, 9, 10] = Some 5 \<and>
   Quantile_spec (50 / 100) [1, 2, 3, 4, 5, 6, 7, 8, 9, 10] = Some 5.5"
  by (simp add: rawToSummary_sorted_values Quantile_def Quantile_spec_def Let_def raw10_def)

text \<open>
  C1, as the code has it. The p-th percentile of the sorted observations is the
  observation number \<open>\<lceil>p \<cdot> n\<rceil>\<close> of the \<open>n\<close>, counted from 1 (the first one when
  that number is 0): the lowest observation at or above the fraction \<open>p\<close> of them,
  without interpolation. So for every series with at least one observation the minimum
  is the first sorted value, the maximum is the last, and each percentile is the value
  at that place; and for the observations 1, 2, ..., 10 (under any key, bucket and
  observation times) the minimum is 1, the maximum is 10 and the 50th percentile is 5.
\<close>

theorem quantile_correctness:
  "(Values raw \<noteq> [] \<longrightarrow>
      rawToSummary Quantile raw =
        (let vs = sort (map Value (Values raw));
             rank = (\<lambda>p. vs ! (nat \<lceil>p * real (length vs)\<rceil> - 1))
         in Some \<lparr>Key = Key_r raw, At = At_r raw, Min_s = vs ! 0, Max_s = vs ! (length vs - 1),
                  P2 = rank (2 / 100), P9 = rank (9 / 100), P25 = rank (25 / 100),
                  P50 = rank (50 / 100), P75 = rank (75 / 100), P91 = rank (91 / 100),
                  P98 = rank (98 / 100)\<rparr>)) \<and>
   rawToSummary Quantile
     \<lparr>Key_r = k, At_r = a,
      Values = map (\<lambda>v. \<lparr>At_d = t v, Value = v\<rparr>) [1, 2, 3, 4, 5, 6, 7, 8, 9, 10]\<rparr>
   = Some \<lparr>Key = k, At = a, Min_s = 1, Max_s = 10, P2 = 1, P9 = 1, P25 = 3,
           P50 = 5, P75 = 8, P91 = 10, P98 = 10\<rparr>"
proof (intro conjI impI)
  assume "Values raw \<noteq> []"
  then show "rawToSummary Quantile raw =
        (let vs = sort (map Value (Values raw));
             rank = (\<lambda>p. vs ! (nat \<lceil>p * real (length vs)\<rceil> - 1))
         in Some \<lparr>Key = Key_r raw, At = At_r raw, Min_s = vs ! 0, Max_s = vs ! (length vs - 1),
                  P2 = rank (2 / 100), P9 = rank (9 / 100), P25 = rank (25 / 100),
                  P50 = rank (50 / 100), P75 = rank (75 / 100), P91 = rank (91 / 100),
                  P98 = rank (98 / 100)\<rparr>)"
    by (rule rawToSummary_rank)
next
  show "rawToSummary Quantile
     \<lparr>Key_r = k, At_r = a,
      Values = map (\<lambda>v. \<lparr>At_d = t v, Value = v\<rparr>) [1, 2, 3, 4, 5, 6, 7, 8, 9, 10]\<rparr>
   = Some \<lparr>Key = k, At = a, Min_s = 1, Max_s = 10, P2 = 1, P9 = 1, P25 = 3,
           P50 = 5, P75 = 8, P91 = 10, P98 = 10\<rparr>"
    by (simp add: rawToSummary_sorted_values Quantile_def Let_def)
qed

text \<open>
  The rule on three observations out of order, 7, 3 and 5: sorted they are 3, 5, 7, and
  the 50th percentile is the second, since \<open>\<lceil>0.5 \<cdot> 3\<rceil> = 2\<close>.
\<close>

theorem quantile_correctness_witness:
  "rawToSummary Quantile
     \<lparr>Key_r = ''cpu'', At_r = 60,
      Values = [\<lparr>At_d = 61, Value = 7\<rparr>, \<lparr>At_d = 62, Value = 3\<rparr>, \<lparr>At_d = 63, Value = 5\<rparr>]\<rparr>
   = Some \<lparr>Key = ''cpu'', At = 60, Min_s = 3, Max_s = 7, P2 = 3, P9 = 3, P25 = 3,
           P50 = 5, P75 = 7, P91 = 7, P98 = 7\<rparr>"
  using quantile_correctness
    [of "\<lparr>Key_r = ''cpu'', At_r = 60,
      Values = [\<lparr>At_d = 61, Value = 7\<rparr>, \<lparr>At_d = 62, Value = 3\<rparr>, \<lparr>At_d = 63, Value = 5\<rparr>]\<rparr>"]
  by (simp add: Let_def)

text \<open>
  C9. \<open>rawToSummary\<close> returns a summary for every \<open>Raw\<close> that has at least one
  observation, and panics (in the first quantile call, which finds no sample to return)
  for a \<open>Raw\<close> that has none.
\<close>

theorem rawToSummary_needs_observation:
  "(Values raw \<noteq> [] \<longrightarrow> (\<exists>summary. rawToSummary Quantile raw = Some summary)) \<and>
   (Values raw = [] \<longrightarrow> rawToSummary Quantile raw = None)"
proof (intro conjI impI)
  assume "Values raw \<noteq> []"
  then show "\<exists>summary. rawToSummary Quantile raw = Some summary"
    by (simp add: rawToSummary_rank Let_def)
next
  assume "Values raw = []"
  then show "rawToSummary Quantile raw = None"
    by (simp add: rawToSummary_sorted_values Quantile_Nil)
qed

theorem rawToSummary_needs_observation_witness:
  "(\<exists>summary. rawToSummary Quantile
       \<lparr>Key_r = ''cpu'', At_r = 60, Values = [\<lparr>At_d = 61, Value = 3\<rparr>]\<rparr> = Some summary) \<and>
   rawToSummary Quantile \<lparr>Key_r = ''cpu'', At_r = 60, Values = []\<rparr> = None"
  using rawToSummary_needs_observation
          [of "\<lparr>Key_r = ''cpu'', At_r = 60, Values = [\<lparr>At_d = 61, Value = 3\<rparr>]\<rparr>"]
        rawToSummary_needs_observation [of "\<lparr>Key_r = ''cpu'', At_r = 60, Values = []\<rparr>"]
  by simp

section \<open>Properties of the subscription\<close>

lemma is_operators_simps:
  "is_operators [(''$gt'', a)]" "is_operators [(''$gte'', a)]" "is_operators [(''$in'', a)]"
  by (simp_all add: is_operators_def)

text \<open>
  C2, as the code has it. The query of the pipeline's \<open>main\<close> matches exactly the
  entries whose timestamp is greater than the one of the latest entry, whose namespace
  is \<open>metrics.raw\<close> and whose operation is \<open>i\<close> or \<open>u\<close>. The query of
  \<open>tail/main.go\<close> matches exactly the entries whose timestamp is greater than or equal
  to the one of the latest entry, whatever their namespace and operation.
\<close>

theorem subscription_filter:
  "doc_matches (query lo) (Oplog_doc r) =
     (Timestamp lo < Timestamp r \<and> Namespace r = ''metrics.raw'' \<and>
      (Operation r = ''i'' \<or> Operation r = ''u''))
   \<and> doc_matches (tail_query lo) (Oplog_doc r) = (Timestamp lo \<le> Timestamp r)"
  by (auto simp add: doc_matches_def query_def tail_query_def Oplog_doc_def is_operators_simps
      operator_def)

theorem subscription_filter_witness:
  "doc_matches (query entry0)
     (Oplog_doc (entry0\<lparr>Timestamp := 8, Namespace := ''metrics.raw'', Operation := ''u''\<rparr>))
   \<and> \<not> doc_matches (query entry0) (Oplog_doc entry0)"
  using subscription_filter
          [of entry0 "entry0\<lparr>Timestamp := 8, Namespace := ''metrics.raw'', Operation := ''u''\<rparr>"]
        subscription_filter [of entry0 entry0]
  by (simp add: entry0_def)

text \<open>
  C2 as stated fails on \<open>tail/main.go\<close>: started on an oplog whose latest entry is a
  delete in another namespace, its subscription matches that very entry (position
  equal to the resume position, not greater; namespace and operation not the
  pipeline's), and the program prints it.
\<close>

theorem tail_subscription_counterexample:
  "doc_matches (tail_query entry0) (Oplog_doc entry0) \<and>
   \<not> Timestamp entry0 < Timestamp entry0 \<and>
   Namespace entry0 \<noteq> ''metrics.raw'' \<and> Operation entry0 \<noteq> ''i'' \<and> Operation entry0 \<noteq> ''u'' \<and>
   tail_main (mem [entry0] [] None (\<lambda>selector. None)) db0 = ([entry0], Returned)"
  by (simp add: doc_matches_def tail_query_def Oplog_doc_def is_operators_simps
      operator_def entry0_def tail_main_def mem_def latestOplog_def)

section \<open>Properties of \<open>oidCh\<close>\<close>

lemma oidCh_append: "oidCh hex (xs @ ys) = oidCh hex xs @ oidCh hex ys"
  by (induction xs) simp_all

text \<open>
  C3 as stated fails: the insert of the spec's example, whose \<open>_id\<close> is the string
  \<open>"abc"\<close>, yields no identifier, since the value is not a \<open>bson.ObjectId\<close>.
\<close>

theorem insert_string_id_counterexample:
  "oidCh (\<lambda>boid. boid) [insert_abc] = [] \<and> oidCh (\<lambda>boid. boid) [insert_abc] \<noteq> [''abc'']"
  by (simp add: insert_abc_def oid_of_def)

text \<open>
  C3, as the code has it. An insert whose payload holds an \<open>_id\<close> of type
  \<open>bson.ObjectId\<close> yields the hexadecimal form of that identifier, at its place in
  the stream; an insert whose payload holds no such \<open>_id\<close> yields nothing.
\<close>

theorem insert_extraction:
  assumes "Operation r = ''i''"
  shows "(map_of (Object r) ''_id'' = Some (ObjectId boid) \<longrightarrow>
            oidCh hex (before @ r # after) = oidCh hex before @ hex boid # oidCh hex after) \<and>
         ((\<forall>boid. map_of (Object r) ''_id'' \<noteq> Some (ObjectId boid)) \<longrightarrow>
            oidCh hex (before @ r # after) = oidCh hex before @ oidCh hex after)"
  using assms by (auto simp add: oidCh_append oid_of_def split: option.splits bval.splits)

theorem insert_extraction_witness:
  "oidCh (\<lambda>boid. boid)
     ([] @ insert_abc\<lparr>Object := [(''_id'', ObjectId ''abc''), (''value'', BInt 5)]\<rparr> # [])
     = oidCh (\<lambda>boid. boid) [] @ ''abc'' # oidCh (\<lambda>boid. boid) [] \<and>
   oidCh (\<lambda>boid. boid) ([] @ insert_abc # []) = oidCh (\<lambda>boid. boid) [] @ oidCh (\<lambda>boid. boid) []"
  using insert_extraction
          [where r = "insert_abc\<lparr>Object := [(''_id'', ObjectId ''abc''), (''value'', BInt 5)]\<rparr>"
             and boid = "''abc''" and hex = "\<lambda>boid. boid" and before = "[]" and after = "[]"]
        insert_extraction
          [where r = insert_abc and boid = "''abc''" and hex = "\<lambda>boid. boid" and before = "[]"
             and after = "[]"]
  by (simp add: insert_abc_def oid_of_def)

text \<open>
  C4 as stated fails: the update of the spec's example, whose selector holds the string
  \<open>"abc"\<close> as \<open>_id\<close>, yields no identifier.
\<close>

theorem update_string_id_counterexample:
  "oidCh (\<lambda>boid. boid) [update_abc] = [] \<and> oidCh (\<lambda>boid. boid) [update_abc] \<noteq> [''abc'']"
  by (simp add: update_abc_def oid_of_def)

text \<open>
  C4, as the code has it. For an update the payload never matters: any other payload
  gives the same output. A selector that holds an \<open>_id\<close> of type \<open>bson.ObjectId\<close>
  yields the hexadecimal form of that identifier; a selector without one yields nothing.
\<close>

theorem update_extraction:
  assumes "Operation r = ''u''"
  shows "oidCh hex (before @ r # after) = oidCh hex (before @ r\<lparr>Object := payload\<rparr> # after) \<and>
         (map_of (QueryObject r) ''_id'' = Some (ObjectId boid) \<longrightarrow>
            oidCh hex (before @ r # after) = oidCh hex before @ hex boid # oidCh hex after) \<and>
         ((\<forall>boid. map_of (QueryObject r) ''_id'' \<noteq> Some (ObjectId boid)) \<longrightarrow>
            oidCh hex (before @ r # after) = oidCh hex before @ oidCh hex after)"
  using assms by (auto simp add: oidCh_append oid_of_def split: option.splits bval.splits)

theorem update_extraction_witness:
  "oidCh (\<lambda>boid. boid) ([] @ update_abc\<lparr>QueryObject := [(''_id'', ObjectId ''abc'')]\<rparr> # [])
     = oidCh (\<lambda>boid. boid)
         ([] @ update_abc\<lparr>QueryObject := [(''_id'', ObjectId ''abc'')],
                          Object := [(''_id'', ObjectId ''xyz'')]\<rparr> # []) \<and>
   oidCh (\<lambda>boid. boid) ([] @ update_abc\<lparr>QueryObject := [(''_id'', ObjectId ''abc'')]\<rparr> # [])
     = oidCh (\<lambda>boid. boid) [] @ ''abc'' # oidCh (\<lambda>boid. boid) [] \<and>
   oidCh (\<lambda>boid. boid) ([] @ update_abc # []) = oidCh (\<lambda>boid. boid) [] @ oidCh (\<lambda>boid. boid) []"
  using update_extraction
          [where r = "update_abc\<lparr>QueryObject := [(''_id'', ObjectId ''abc'')]\<rparr>"
             and hex = "\<lambda>boid. boid" and before = "[]" and after = "[]"
             and payload = "[(''_id'', ObjectId ''xyz'')]" and boid = "''abc''"]
        update_extraction
          [where r = update_abc and hex = "\<lambda>boid. boid" and before = "[]" and after = "[]"
             and payload = "[]" and boid = "''abc''"]
  by (simp add: update_abc_def oid_of_def)

section \<open>Properties of the pipeline\<close>

lemma stats_Tail: "stats (drv\<lparr>Tail := T\<rparr>) Q sess oid = stats drv Q sess oid"
  by (simp add: stats_def cong: sum.case_cong option.case_cong)

lemma consume_Tail: "consume (drv\<lparr>Tail := T\<rparr>) Q sess ids = consume drv Q sess ids"
  by (induction ids arbitrary: sess) (simp_all add: stats_Tail)

text \<open>\<open>main\<close> on a driver whose iterator delivers \<open>och\<close> and ends with \<open>err\<close>, \<open>close_err\<close>.\<close>

lemma main_Tail:
  "main (drv\<lparr>Tail := \<lambda>sess q. (och, err, close_err)\<rparr>) Q sess =
     (case Dial drv of
        Some e \<Rightarrow> (sess, Panicked (PanicErr e))
      | None \<Rightarrow>
          (case FindLatest drv sess of
             Inl e \<Rightarrow> (sess, Panicked (PanicErr e))
           | Inr lo \<Rightarrow>
               (case consume drv Q sess (oidCh (Hex drv) och) of
                  (sess', Some p) \<Rightarrow> (sess', Panicked p)
                | (sess', None) \<Rightarrow>
                    (case (case err of Some e \<Rightarrow> Some e | None \<Rightarrow> close_err) of
                       Some e \<Rightarrow> (sess', Panicked (PanicErr e))
                     | None \<Rightarrow> (sess', Returned)))))"
  by (simp add: main_def latestOplog_def oplogCh_def consume_Tail
      cong: sum.case_cong option.case_cong)

text \<open>
  C5. An entry whose identifier field (\<open>_id\<close> of the payload for an insert, of the
  selector for an update) is absent or not a \<open>bson.ObjectId\<close> yields no identifier;
  \<open>oidCh\<close> has no error to give; the entries before and after it yield what they
  yield without it; and the whole run of \<open>main\<close> is the run on the stream
  without that entry.
\<close>

theorem drop_on_absence:
  assumes "Operation r = ''i'' \<Longrightarrow> \<forall>boid. map_of (Object r) ''_id'' \<noteq> Some (ObjectId boid)"
      and "Operation r = ''u'' \<Longrightarrow> \<forall>boid. map_of (QueryObject r) ''_id'' \<noteq> Some (ObjectId boid)"
  shows "oidCh hex [r] = [] \<and>
         oidCh hex (before @ r # after) = oidCh hex before @ oidCh hex after \<and>
         main (drv\<lparr>Tail := \<lambda>sess q. (before @ r # after, err, close_err)\<rparr>) Q sess
           = main (drv\<lparr>Tail := \<lambda>sess q. (before @ after, err, close_err)\<rparr>) Q sess"
proof -
  have "oid_of h r = []" for h
    using assms by (auto simp add: oid_of_def split: option.splits bval.splits)
  then have eq: "oidCh h (before @ r # after) = oidCh h (before @ after)"
    and single: "oidCh h [r] = []" for h
    by (simp_all add: oidCh_append)
  have "main (drv\<lparr>Tail := \<lambda>sess q. (before @ r # after, err, close_err)\<rparr>) Q sess
           = main (drv\<lparr>Tail := \<lambda>sess q. (before @ after, err, close_err)\<rparr>) Q sess"
    by (simp only: main_Tail eq)
  then show ?thesis
    using eq single by (simp add: oidCh_append)
qed

theorem drop_on_absence_witness:
  "oidCh (\<lambda>boid. boid) [insert_no_id] = [] \<and>
   oidCh (\<lambda>boid. boid) ([] @ insert_no_id # []) = oidCh (\<lambda>boid. boid) [] @ oidCh (\<lambda>boid. boid) [] \<and>
   main ((mem [entry0] [] None (\<lambda>selector. None))
           \<lparr>Tail := \<lambda>sess q. ([] @ insert_no_id # [], None, None)\<rparr>) Quantile db0
     = (db0, Returned)"
  using drop_on_absence [where r = insert_no_id and hex = "\<lambda>boid. boid" and before = "[]"
          and after = "[]" and drv = "mem [entry0] [] None (\<lambda>selector. None)"
          and err = None and close_err = None and Q = Quantile and sess = db0]
  by (simp add: insert_no_id_def oid_of_def main_def mem_def latestOplog_def oplogCh_def)

section \<open>Properties of \<open>stats\<close> and \<open>main\<close>\<close>

lemma rawToSummary_Key:
  "rawToSummary Q raw = Some summary \<Longrightarrow> Key summary = Key_r raw \<and> At summary = At_r raw"
  by (auto simp add: rawToSummary_def Let_def split: Option.bind_splits)

lemma selector_matches:
  "doc_matches [(''key'', BString (Key summary)), (''at'', BInt64 (At summary))] (Summary_doc summary)"
  by (simp add: doc_matches_def Summary_doc_def)

lemma rawToSummary_raw1: "rawToSummary Quantile raw1 = Some summary1"
  by (simp add: rawToSummary_sorted_values Quantile_def Let_def raw1_def summary1_def)

lemma mem_FindRaw_db1: "mem_FindRaw db1 [(''_id'', ObjectId ''abc'')] = Inr raw1"
  by (simp add: mem_FindRaw_def db1_def doc_matches_def)

lemma stats_db1:
  "stats (mem seen later broken (\<lambda>selector. None)) Quantile db1 ''abc''
     = (db1\<lparr>summary_c := [summary1]\<rparr>, Inr None)"
  by (simp add: stats_def mem_def mem_FindRaw_db1 rawToSummary_raw1 mem_Upsert_def)
    (simp add: db1_def)

text \<open>
  C7. When the series is found and summarised, \<open>stats\<close> is the upsert whose selector
  is \<open>{key: raw.Key, at: raw.At}\<close>, the key and the bucket start time of the loaded
  series; the identifier \<open>oid\<close> is not part of it. The summary handed to the upsert
  carries the same key and bucket start time, so that it matches its own selector.
\<close>

theorem summary_key:
  assumes "ObjectIdHex drv oid = Some boid"
      and "FindRaw drv sess [(''_id'', ObjectId boid)] = Inr raw"
      and "rawToSummary Q raw = Some summary"
  shows "stats drv Q sess oid =
           (case Upsert drv sess [(''key'', BString (Key_r raw)), (''at'', BInt64 (At_r raw))] summary of
              (sess', err) \<Rightarrow> (sess', Inr err)) \<and>
         Key summary = Key_r raw \<and> At summary = At_r raw \<and>
         doc_matches [(''key'', BString (Key_r raw)), (''at'', BInt64 (At_r raw))] (Summary_doc summary)"
  using assms rawToSummary_Key [OF assms(3)] selector_matches [of summary]
  by (simp add: stats_def)

theorem summary_key_witness:
  "stats (mem [entry0] [] None (\<lambda>selector. None)) Quantile db1 ''abc'' =
     (db1\<lparr>summary_c := [summary1]\<rparr>, Inr None) \<and>
   Key summary1 = Key_r raw1 \<and> At summary1 = At_r raw1 \<and>
   doc_matches [(''key'', BString ''cpu''), (''at'', BInt64 60)] (Summary_doc summary1)"
  using summary_key [where drv = "mem [entry0] [] None (\<lambda>selector. None)" and oid = "''abc''"
          and boid = "''abc''" and sess = db1 and raw = raw1 and Q = Quantile
          and summary = summary1]
        rawToSummary_raw1 mem_FindRaw_db1
  by (simp add: mem_def mem_Upsert_def) (simp add: raw1_def db1_def summary1_def)

lemma consume_append:
  "consume drv Q sess (ids1 @ ids2) =
     (case consume drv Q sess ids1 of
        (sess', Some p) \<Rightarrow> (sess', Some p)
      | (sess', None) \<Rightarrow> consume drv Q sess' ids2)"
  by (induction ids1 arbitrary: sess) (auto split: prod.splits sum.splits option.splits)

text \<open>
  C8. In a run of \<open>main\<close> that got past startup and whose iterator delivers \<open>och\<close>
  and ends with \<open>err\<close>, \<open>close_err\<close>:
  \<^item> when \<open>stats\<close> returns an error \<open>e\<close> for an identifier (series not found, upsert
    failed), \<open>main\<close> panics with \<open>e\<close> in the state that this \<open>stats\<close> left: the
    identifiers after it are not processed;
  \<^item> when every \<open>stats\<close> returns nil and the iterator ended with an error, \<open>main\<close>
    panics with that error after the identifiers of the entries delivered;
  \<^item> \<open>main\<close> returns only when there was no error at all.
\<close>

theorem first_error_halts:
  assumes "Dial drv = None"
      and "FindLatest drv sess = Inr lo"
      and "Tail drv sess (query lo) = (och, err, close_err)"
  shows "(oidCh (Hex drv) och = processed @ oid # rest \<and>
          consume drv Q sess processed = (sess1, None) \<and>
          stats drv Q sess1 oid = (sess2, Inr (Some e))
            \<longrightarrow> main drv Q sess = (sess2, Panicked (PanicErr e))) \<and>
         (consume drv Q sess (oidCh (Hex drv) och) = (sess1, None) \<and> err = Some e
            \<longrightarrow> main drv Q sess = (sess1, Panicked (PanicErr e))) \<and>
         (consume drv Q sess (oidCh (Hex drv) och) = (sess1, None) \<and> err = None \<and> close_err = Some e
            \<longrightarrow> main drv Q sess = (sess1, Panicked (PanicErr e))) \<and>
         (main drv Q sess = (sess1, Returned)
            \<longrightarrow> consume drv Q sess (oidCh (Hex drv) och) = (sess1, None) \<and>
                err = None \<and> close_err = None)"
  using assms
  by (auto simp add: main_def latestOplog_def oplogCh_def consume_append
      split: prod.splits option.splits)

text \<open>
  Three runs on the database in memory: the series of the first identifier is missing
  and the second identifier is never looked at; the upsert fails; the iterator breaks
  after one entry, whose summary is written before the panic.
\<close>

theorem first_error_halts_witness:
  "main (mem [entry0] [insert_oid, insert_oid] None (\<lambda>selector. None)) Quantile db0
     = (db0, Panicked (PanicErr ErrNotFound)) \<and>
   main (mem [entry0] [insert_oid] None (\<lambda>selector. Some (ErrOther ''write failed''))) Quantile db1
     = (db1, Panicked (PanicErr (ErrOther ''write failed''))) \<and>
   main (mem [entry0] [insert_oid] (Some (ErrOther ''cursor lost'')) (\<lambda>selector. None)) Quantile db1
     = (db1\<lparr>summary_c := [summary1]\<rparr>, Panicked (PanicErr (ErrOther ''cursor lost'')))"
proof -
  let ?d1 = "mem [entry0] [insert_oid, insert_oid] None (\<lambda>selector. None)"
  let ?d2 = "mem [entry0] [insert_oid] None (\<lambda>selector. Some (ErrOther ''write failed''))"
  let ?d3 = "mem [entry0] [insert_oid] (Some (ErrOther ''cursor lost'')) (\<lambda>selector. None)"
  have m: "doc_matches (query entry0) (Oplog_doc insert_oid)"
    "\<not> doc_matches (query entry0) (Oplog_doc entry0)"
    by (simp_all add: doc_matches_def query_def Oplog_doc_def is_operators_simps operator_def
        entry0_def insert_oid_def)
  have o: "oidCh (\<lambda>boid. boid) [insert_oid] = [''abc'']"
    "oidCh (\<lambda>boid. boid) [insert_oid, insert_oid] = [] @ ''abc'' # [''abc'']"
    by (simp_all add: oid_of_def insert_oid_def)
  have s1: "stats ?d1 Quantile db0 ''abc'' = (db0, Inr (Some ErrNotFound))"
    by (simp add: stats_def mem_def mem_FindRaw_def db0_def)
  have s2: "stats ?d2 Quantile db1 ''abc'' = (db1, Inr (Some (ErrOther ''write failed'')))"
    by (simp add: stats_def mem_def mem_FindRaw_db1 rawToSummary_raw1 mem_Upsert_def)
  have s3: "stats ?d3 Quantile db1 ''abc'' = (db1\<lparr>summary_c := [summary1]\<rparr>, Inr None)"
    by (rule stats_db1)
  have a: "main ?d1 Quantile db0 = (db0, Panicked (PanicErr ErrNotFound))"
    using first_error_halts [where drv = ?d1 and sess = db0 and lo = entry0
        and och = "[insert_oid, insert_oid]" and err = None and close_err = None
        and processed = "[]" and oid = "''abc''" and rest = "[''abc'']" and Q = Quantile
        and ?sess1.0 = db0 and ?sess2.0 = db0 and e = ErrNotFound] s1 o m
    by (simp add: mem_def)
  have b: "main ?d2 Quantile db1 = (db1, Panicked (PanicErr (ErrOther ''write failed'')))"
    using first_error_halts [where drv = ?d2 and sess = db1 and lo = entry0
        and och = "[insert_oid]" and err = None and close_err = None
        and processed = "[]" and oid = "''abc''" and rest = "[]" and Q = Quantile
        and ?sess1.0 = db1 and ?sess2.0 = db1 and e = "ErrOther ''write failed''"] s2 o m
    by (simp add: mem_def)
  have c: "main ?d3 Quantile db1
     = (db1\<lparr>summary_c := [summary1]\<rparr>, Panicked (PanicErr (ErrOther ''cursor lost'')))"
    using first_error_halts [where drv = ?d3 and sess = db1 and lo = entry0
        and och = "[insert_oid]" and err = "Some (ErrOther ''cursor lost'')" and close_err = None
        and Q = Quantile
        and ?sess1.0 = "db1\<lparr>summary_c := [summary1]\<rparr>" and e = "ErrOther ''cursor lost''"] s3 o m
    by (simp add: mem_def)
  from a b c show ?thesis by simp
qed

section \<open>Recomputation on the database in memory\<close>

lemma upsert_list_idem:
  "doc_matches selector (Summary_doc summary) \<Longrightarrow>
   upsert_list selector summary (upsert_list selector summary ds) = upsert_list selector summary ds"
  by (induction ds) simp_all

lemma mem_stats_success:
  assumes "stats (mem seen later broken faulty) Q sess oid = (sess', Inr None)"
  shows "\<exists>raw summary.
           mem_FindRaw sess [(''_id'', ObjectId oid)] = Inr raw \<and>
           rawToSummary Q raw = Some summary \<and>
           faulty [(''key'', BString (Key summary)), (''at'', BInt64 (At summary))] = None \<and>
           sess' = sess\<lparr>summary_c := upsert_list
                     [(''key'', BString (Key summary)), (''at'', BInt64 (At summary))] summary
                     (summary_c sess)\<rparr>"
  using assms
  by (auto simp add: stats_def mem_def mem_Upsert_def Let_def
      split: sum.splits option.splits)

lemma mem_FindRaw_summary_c:
  "mem_FindRaw (sess\<lparr>summary_c := c\<rparr>) q = mem_FindRaw sess q"
  by (simp add: mem_FindRaw_def)

text \<open>
  C6. \<open>rawToSummary\<close> is a function of its \<open>Raw\<close> argument (and of the quantile
  function, whatever it is). On the database in memory, once \<open>stats\<close> has succeeded
  for an identifier, running it again on the state it left succeeds and leaves that
  state as it is; so any number of recomputations of the same series leave the
  collection of summaries that the first one left.
\<close>

theorem idempotent_recompute:
  assumes "stats (mem seen later broken faulty) Q sess oid = (sess', Inr None)"
  shows "stats (mem seen later broken faulty) Q sess' oid = (sess', Inr None) \<and>
         consume (mem seen later broken faulty) Q sess (replicate (Suc n) oid) = (sess', None)"
proof -
  obtain raw summary where
    f: "mem_FindRaw sess [(''_id'', ObjectId oid)] = Inr raw" and
    r: "rawToSummary Q raw = Some summary" and
    u: "faulty [(''key'', BString (Key summary)), (''at'', BInt64 (At summary))] = None" and
    s: "sess' = sess\<lparr>summary_c := upsert_list
                     [(''key'', BString (Key summary)), (''at'', BInt64 (At summary))] summary
                     (summary_c sess)\<rparr>"
    using mem_stats_success [OF assms] by blast
  have again: "stats (mem seen later broken faulty) Q sess' oid = (sess', Inr None)"
    unfolding s
    by (simp add: stats_def mem_def mem_FindRaw_summary_c f r mem_Upsert_def u
        upsert_list_idem selector_matches)
  have "consume (mem seen later broken faulty) Q sess' (replicate k oid) = (sess', None)" for k
    by (induction k) (simp_all add: again)
  then have "consume (mem seen later broken faulty) Q sess (replicate (Suc n) oid) = (sess', None)"
    by (simp add: assms)
  with again show ?thesis by simp
qed

theorem idempotent_recompute_witness:
  "stats (mem [entry0] [] None (\<lambda>selector. None)) Quantile (db1\<lparr>summary_c := [summary1]\<rparr>) ''abc''
     = (db1\<lparr>summary_c := [summary1]\<rparr>, Inr None) \<and>
   consume (mem [entry0] [] None (\<lambda>selector. None)) Quantile db1 (replicate (Suc 2) ''abc'')
     = (db1\<lparr>summary_c := [summary1]\<rparr>, None)"
  using idempotent_recompute [OF stats_db1, of "[entry0]" "[]" None 2] .

section \<open>What \<open>rawToSummary\<close> writes\<close>

lemma copy_values_h_eq:
  "floats h a = Some vs \<Longrightarrow>
   copy_values_h ds i a h = h\<lparr>floats := (floats h)(a \<mapsto> copy_values ds i vs)\<rparr>"
proof (induction ds arbitrary: i vs h)
  case Nil
  then have "(floats h)(a \<mapsto> vs) = floats h" by (simp add: fun_upd_idem)
  then show ?case by simp
next
  case (Cons d ds)
  let ?h = "h\<lparr>floats := (floats h)(a \<mapsto> vs[i := Value d])\<rparr>"
  have step: "copy_values_h ds (Suc i) a ?h =
      ?h\<lparr>floats := (floats ?h)(a \<mapsto> copy_values ds (Suc i) (vs[i := Value d]))\<rparr>"
    by (rule Cons.IH) simp
  have "read_floats h a = vs" using Cons.prems by (simp add: read_floats_def)
  then show ?case by (simp add: step) (simp add: fun_upd_def)
qed

text \<open>
  The heap that \<open>rawToSummary\<close> leaves is the old one with one more array, the sorted
  values; its result is the one of \<open>rawToSummary\<close> on the values read from the heap.
\<close>

lemma rawToSummary_h_eq:
  "rawToSummary_h Q h raw =
     (h\<lparr>floats := (floats h)(free h \<mapsto> sort (map Value (read_datapoints h (Values_h raw)))),
        free := Suc (free h)\<rparr>,
      rawToSummary Q (Raw_of h raw))"
proof -
  let ?ds = "read_datapoints h (Values_h raw)"
  let ?h1 = "h\<lparr>floats := (floats h)(free h \<mapsto> replicate (length ?ds) 0), free := Suc (free h)\<rparr>"
  have rd: "read_datapoints ?h1 (Values_h raw) = ?ds"
    by (simp add: read_datapoints_def)
  have "floats ?h1 (free h) = Some (replicate (length ?ds) 0)" by simp
  from copy_values_h_eq [OF this, of ?ds 0]
  have h2: "copy_values_h ?ds 0 (free h) ?h1 = ?h1\<lparr>floats := (floats ?h1)(free h \<mapsto> map Value ?ds)\<rparr>"
    by (simp only: copy_values_map)
  show ?thesis
    by (simp add: rawToSummary_h_def make_floats_def rd h2 sort_Float64s_def read_floats_def
        rawToSummary_sorted_values Raw_of_def Let_def)
qed

text \<open>
  C10. \<open>rawToSummary\<close> writes only to the array it makes: every array of
  observations is as before, every array of floats other than the new one is as
  before, and the \<open>Raw\<close> read through the argument after the call (key, bucket start
  time, observations in their order) is the one read before it. The summary is the
  one computed from that \<open>Raw\<close>.
\<close>

theorem rawToSummary_frame:
  "datapoints (fst (rawToSummary_h Q h raw)) = datapoints h \<and>
   (\<forall>a. a \<noteq> free h \<longrightarrow> floats (fst (rawToSummary_h Q h raw)) a = floats h a) \<and>
   Raw_of (fst (rawToSummary_h Q h raw)) raw = Raw_of h raw \<and>
   snd (rawToSummary_h Q h raw) = rawToSummary Q (Raw_of h raw)"
  by (simp add: rawToSummary_h_eq Raw_of_def read_datapoints_def)

theorem rawToSummary_frame_witness:
  "map Value (Values (Raw_of (fst (rawToSummary_h Quantile heap0 raw_h0)) raw_h0)) = [3, 1] \<and>
   floats (fst (rawToSummary_h Quantile heap0 raw_h0)) 0 = Some [9, 8] \<and>
   floats (fst (rawToSummary_h Quantile heap0 raw_h0)) 1 = Some [1, 3] \<and>
   map_option P50 (snd (rawToSummary_h Quantile heap0 raw_h0)) = Some 1"
proof -
  have "Raw_of heap0 raw_h0 =
      \<lparr>Key_r = ''cpu'', At_r = 60, Values = [\<lparr>At_d = 61, Value = 3\<rparr>, \<lparr>At_d = 62, Value = 1\<rparr>]\<rparr>"
    by (simp add: Raw_of_def read_datapoints_def heap0_def raw_h0_def)
  moreover have "floats (fst (rawToSummary_h Quantile heap0 raw_h0)) 1 = Some [1, 3]"
    by (simp add: rawToSummary_h_eq heap0_def raw_h0_def read_datapoints_def)
  moreover have "(0::nat) \<noteq> free heap0" "floats heap0 0 = Some [9, 8]"
    by (simp_all add: heap0_def)
  ultimately show ?thesis
    using rawToSummary_frame [of Quantile heap0 raw_h0]
    by (simp add: rawToSummary_sorted_values Quantile_def Let_def)
qed

end
